theory Spec2Isabelle
  imports Main "HOL-Library.Word"
begin

section \<open>The data model of smbus.h\<close>

text \<open>
  Machine types of the header: \<open>u8\<close>/\<open>__u8\<close>, \<open>u16\<close>/\<open>__u16\<close> and \<open>s32\<close> are words of
  their width; an \<open>s32\<close> is read as a signed number with \<open>sint\<close>. A C \<open>char\<close> is kept as
  its eight bits, so that passing a \<open>u8\<close> where a \<open>char\<close> is expected changes nothing.
  The \<open>int\<close> that carries the transaction size only ever holds the six small constants
  below and is an \<open>int\<close> here.
\<close>

type_synonym u8 = "8 word"
type_synonym u16 = "16 word"
type_synonym s32 = "32 word"
type_synonym c_char = "8 word"

text \<open>
  Pointers to structures and to functions are addresses; \<open>0\<close> is the null pointer.
\<close>

type_synonym obj_ptr = nat
type_synonym fn_ptr = nat

text \<open>
  The four structures, field by field. A field name that the header uses in more than
  one structure (\<open>name\<close>, \<open>id\<close>, \<open>flags\<close>, \<open>data\<close>), or that is also the name of a
  parameter of the routines below (\<open>addr\<close>, \<open>adapter\<close>, \<open>driver\<close>, \<open>command\<close>),
  carries its structure as a prefix. The lock of an adapter is the semaphore variant
  (no \<open>SPINLOCK\<close>); its contents belong to the kernel headers and are left as a
  number.
\<close>

record smbus_driver =
  driver_name :: string
  driver_id :: int
  driver_flags :: "32 word"
  attach_adapter :: fn_ptr
  detach_client :: fn_ptr
  driver_command :: fn_ptr
  inc_use :: fn_ptr
  dec_use :: fn_ptr

record smbus_client =
  client_name :: string
  client_id :: int
  client_flags :: "32 word"
  client_addr :: u8
  client_adapter :: obj_ptr
  client_driver :: obj_ptr
  client_data :: obj_ptr

record smbus_algorithm =
  algorithm_name :: string
  algorithm_id :: "32 word"
  master_xfer :: fn_ptr
  slave_send :: fn_ptr
  slave_recv :: fn_ptr
  algo_control :: fn_ptr
  client_register :: fn_ptr
  client_unregister :: fn_ptr

record smbus_adapter =
  adapter_name :: string
  adapter_id :: "32 word"
  algo :: obj_ptr
  adapter_data :: obj_ptr
  lock :: int
  adapter_flags :: "32 word"
  clients :: "smbus_client list"
  client_count :: int
  timeout :: int
  retries :: int
  smbus_access :: fn_ptr

definition ALGO_SMBUS :: "32 word" where
  "ALGO_SMBUS = 0x40000"

subsection \<open>The union \<open>smbus_data\<close>\<close>

text \<open>
  \<open>union smbus_data { __u8 byte; __u16 word; __u8 block[32]; }\<close>: three views of
  the same storage. The storage is the memory that starts at the union, one byte per
  offset; the union itself covers the offsets below \<open>block_size\<close>, and an offset from
  \<open>block_size\<close> on is memory that follows the union. The byte view is offset 0, the
  block view is \<open>block[i]\<close> at offset \<open>i\<close>, and the word view is offsets 0 and 1 in
  the byte order of the target, which the header does not fix and which is a parameter.
\<close>

type_synonym smbus_data = "nat \<Rightarrow> u8"

definition block_size :: nat where
  "block_size = 32"

datatype byte_order = Little_endian | Big_endian

definition data_byte :: "smbus_data \<Rightarrow> u8" where
  "data_byte d = d 0"

definition set_data_byte :: "u8 \<Rightarrow> smbus_data \<Rightarrow> smbus_data" where
  "set_data_byte v d = d(0 := v)"

definition data_word :: "byte_order \<Rightarrow> smbus_data \<Rightarrow> u16" where
  "data_word e d =
     (case e of
        Little_endian \<Rightarrow> word_cat (d 1) (d 0)
      | Big_endian \<Rightarrow> word_cat (d 0) (d 1))"

definition set_data_word :: "byte_order \<Rightarrow> u16 \<Rightarrow> smbus_data \<Rightarrow> smbus_data" where
  "set_data_word e v d =
     (case e of
        Little_endian \<Rightarrow> d(0 := ucast v, 1 := ucast (drop_bit 8 v))
      | Big_endian \<Rightarrow> d(0 := ucast (drop_bit 8 v), 1 := ucast v))"

subsection \<open>Markers and transaction types\<close>

definition SMBUS_READ :: c_char where "SMBUS_READ = 1"
definition SMBUS_WRITE :: c_char where "SMBUS_WRITE = 0"

definition SMBUS_QUICK :: int where "SMBUS_QUICK = 0"
definition SMBUS_BYTE :: int where "SMBUS_BYTE = 1"
definition SMBUS_BYTE_DATA :: int where "SMBUS_BYTE_DATA = 2"
definition SMBUS_WORD_DATA :: int where "SMBUS_WORD_DATA = 3"
definition SMBUS_PROC_CALL :: int where "SMBUS_PROC_CALL = 4"
definition SMBUS_BLOCK_DATA :: int where "SMBUS_BLOCK_DATA = 5"

section \<open>The access routines\<close>

text \<open>
  The generalized routine \<open>smbus_access\<close> is declared \<open>extern\<close> and defined elsewhere:
  every routine below takes it as its first argument \<open>access\<close>. It receives the
  adapter, the address, the read/write marker, the command byte, the transaction type
  and the data pointer (\<open>None\<close> for \<open>NULL\<close>, otherwise the storage the pointer refers
  to), and returns its status together with the storage as it leaves it. An \<open>access\<close>
  is the routine taken with the state of the bus at the moment of the call; each
  routine below calls it at most once.
\<close>

type_synonym access_fn =
  "obj_ptr \<Rightarrow> u8 \<Rightarrow> c_char \<Rightarrow> u8 \<Rightarrow> int \<Rightarrow> smbus_data option \<Rightarrow> s32 \<times> smbus_data"

text \<open>
  A routine that declares \<open>union smbus_data data\<close> without initialising it takes the
  initial contents of that storage as its last argument \<open>data0\<close>.
\<close>

definition smbus_write_quick :: "access_fn \<Rightarrow> obj_ptr \<Rightarrow> u8 \<Rightarrow> u8 \<Rightarrow> s32" where
  "smbus_write_quick access adapter addr value =
     fst (access adapter addr value 0 SMBUS_QUICK None)"

definition smbus_read_byte :: "access_fn \<Rightarrow> obj_ptr \<Rightarrow> u8 \<Rightarrow> smbus_data \<Rightarrow> s32" where
  "smbus_read_byte access adapter addr data0 =
     (case access adapter addr SMBUS_READ 0 SMBUS_BYTE (Some data0) of
        (status, data) \<Rightarrow> if status \<noteq> 0 then - 1 else ucast (data_byte data))"

definition smbus_write_byte :: "access_fn \<Rightarrow> obj_ptr \<Rightarrow> u8 \<Rightarrow> u8 \<Rightarrow> s32" where
  "smbus_write_byte access adapter addr value =
     fst (access adapter addr SMBUS_WRITE value SMBUS_BYTE None)"

definition smbus_read_byte_data ::
  "access_fn \<Rightarrow> obj_ptr \<Rightarrow> u8 \<Rightarrow> u8 \<Rightarrow> smbus_data \<Rightarrow> s32" where
  "smbus_read_byte_data access adapter addr command data0 =
     (case access adapter addr SMBUS_READ command SMBUS_BYTE_DATA (Some data0) of
        (status, data) \<Rightarrow> if status \<noteq> 0 then - 1 else ucast (data_byte data))"

definition smbus_write_byte_data ::
  "access_fn \<Rightarrow> obj_ptr \<Rightarrow> u8 \<Rightarrow> u8 \<Rightarrow> u8 \<Rightarrow> smbus_data \<Rightarrow> s32" where
  "smbus_write_byte_data access adapter addr command value data0 =
     (let data = set_data_byte value data0
      in fst (access adapter addr SMBUS_WRITE command SMBUS_BYTE_DATA (Some data)))"

definition smbus_read_word_data ::
  "byte_order \<Rightarrow> access_fn \<Rightarrow> obj_ptr \<Rightarrow> u8 \<Rightarrow> u8 \<Rightarrow> smbus_data \<Rightarrow> s32" where
  "smbus_read_word_data e access adapter addr command data0 =
     (case access adapter addr SMBUS_READ command SMBUS_WORD_DATA (Some data0) of
        (status, data) \<Rightarrow> if status \<noteq> 0 then - 1 else ucast (data_word e data))"

definition smbus_write_word_data ::
  "byte_order \<Rightarrow> access_fn \<Rightarrow> obj_ptr \<Rightarrow> u8 \<Rightarrow> u8 \<Rightarrow> u16 \<Rightarrow> smbus_data \<Rightarrow> s32" where
  "smbus_write_word_data e access adapter addr command value data0 =
     (let data = set_data_word e value data0
      in fst (access adapter addr SMBUS_WRITE command SMBUS_WORD_DATA (Some data)))"

definition smbus_process_call ::
  "byte_order \<Rightarrow> access_fn \<Rightarrow> obj_ptr \<Rightarrow> u8 \<Rightarrow> u8 \<Rightarrow> u16 \<Rightarrow> smbus_data \<Rightarrow> s32" where
  "smbus_process_call e access adapter addr command value data0 =
     (let data = set_data_word e value data0
      in case access adapter addr SMBUS_WRITE command SMBUS_PROC_CALL (Some data) of
           (status, data) \<Rightarrow> if status \<noteq> 0 then - 1 else ucast (data_word e data))"

subsection \<open>Block transfers\<close>

text \<open>
  The two block routines index \<open>data.block\<close> in a loop. To say which elements they
  touch, the local union lives in a frame that holds its storage and, in program order,
  the index of every \<open>data.block[...]\<close> the routine evaluates. C does not check an
  index. An access \<open>data.block[i]\<close> with \<open>i < block_size\<close> is an access to the array.
  One with \<open>block_size \<le> i\<close> is outside the array, and from it on C leaves the
  behaviour of the routine undefined: \<open>block_store\<close> and \<open>block_load\<close> record such an
  access in the log like any other and go on as a flat memory would, with the byte at
  offset \<open>i\<close>, which is one of the outcomes C allows and not one it promises. What a
  run with such an access says about the C code is its log up to that access;
  \<open>in_bounds\<close> tells the accesses apart.
\<close>

datatype block_access = Load nat | Store nat

record frame =
  frame_data :: smbus_data
  frame_log :: "block_access list"

definition block_store :: "nat \<Rightarrow> u8 \<Rightarrow> frame \<Rightarrow> frame" where
  "block_store i v fr =
     fr\<lparr>frame_data := (frame_data fr)(i := v), frame_log := frame_log fr @ [Store i]\<rparr>"

definition block_load :: "nat \<Rightarrow> frame \<Rightarrow> u8 \<times> frame" where
  "block_load i fr = (frame_data fr i, fr\<lparr>frame_log := frame_log fr @ [Load i]\<rparr>)"

fun in_bounds :: "block_access \<Rightarrow> bool" where
  "in_bounds (Load i) = (i < block_size)"
| "in_bounds (Store i) = (i < block_size)"

text \<open>
  The caller's buffer \<open>values\<close> is the memory its pointer refers to, one byte per
  index; it is an object of the caller and shares no byte with the local union. The
  loop counter \<open>i\<close> is a C \<open>int\<close> that runs from 1 to at most 256.

  \<open>for (i = 1; i <= data.block[0]; i++) values[i-1] = data.block[i];\<close>
\<close>

function read_block_loop :: "nat \<Rightarrow> (nat \<Rightarrow> u8) \<Rightarrow> frame \<Rightarrow> (nat \<Rightarrow> u8) \<times> frame" where
  "read_block_loop i values fr =
     (case block_load 0 fr of
        (n, fr1) \<Rightarrow>
          if i \<le> unat n
          then (case block_load i fr1 of
                  (v, fr2) \<Rightarrow> read_block_loop (i + 1) (values(i - 1 := v)) fr2)
          else (values, fr1))"
  by pat_completeness auto
termination
proof (relation "measure (\<lambda>(i, values, fr). 256 - i)")
  show "wf (measure (\<lambda>(i, values, fr). 256 - i))"
    by simp
next
  fix i :: nat and vs :: "nat \<Rightarrow> u8" and fr fr1 fr2 :: frame and n v :: u8
  assume "i \<le> unat n"
  moreover have "unat n < 256"
    using unsigned_less [of n, where ?'a = nat] by simp
  ultimately show "((i + 1, vs(i - 1 := v), fr2), (i, vs, fr))
      \<in> measure (\<lambda>(i, values, fr). 256 - i)"
    by simp
qed

declare read_block_loop.simps [simp del]

definition smbus_read_block_data ::
  "access_fn \<Rightarrow> obj_ptr \<Rightarrow> u8 \<Rightarrow> u8 \<Rightarrow> (nat \<Rightarrow> u8) \<Rightarrow> smbus_data
     \<Rightarrow> s32 \<times> (nat \<Rightarrow> u8) \<times> block_access list" where
  "smbus_read_block_data access adapter addr command values data0 =
     (case access adapter addr SMBUS_READ command SMBUS_BLOCK_DATA (Some data0) of
        (status, data) \<Rightarrow>
          if status \<noteq> 0 then (- 1, values, [])
          else (case read_block_loop 1 values \<lparr>frame_data = data, frame_log = []\<rparr> of
                  (values', fr) \<Rightarrow>
                    (case block_load 0 fr of
                       (n, fr') \<Rightarrow> (ucast n, values', frame_log fr'))))"

text \<open>
  \<open>for (i = 1; i <= length; i++) data.block[i] = values[i-1];\<close>
\<close>

function write_block_loop :: "nat \<Rightarrow> u8 \<Rightarrow> (nat \<Rightarrow> u8) \<Rightarrow> frame \<Rightarrow> frame" where
  "write_block_loop i len values fr =
     (if i \<le> unat len
      then write_block_loop (i + 1) len values (block_store i (values (i - 1)) fr)
      else fr)"
  by pat_completeness auto
termination
  by (relation "measure (\<lambda>(i, len, values, fr). Suc (unat len) - i)") auto

declare write_block_loop.simps [simp del]

definition smbus_write_block_data ::
  "access_fn \<Rightarrow> obj_ptr \<Rightarrow> u8 \<Rightarrow> u8 \<Rightarrow> u8 \<Rightarrow> (nat \<Rightarrow> u8) \<Rightarrow> smbus_data
     \<Rightarrow> s32 \<times> block_access list" where
  "smbus_write_block_data access adapter addr command len values data0 =
     (let len = (if 32 < len then 32 else len);
          fr = write_block_loop 1 len values \<lparr>frame_data = data0, frame_log = []\<rparr>;
          fr = block_store 0 len fr
      in (fst (access adapter addr SMBUS_WRITE command SMBUS_BLOCK_DATA
                 (Some (frame_data fr))),
          frame_log fr))"

section \<open>Attaching and detaching clients\<close>

text \<open>
  The header only declares \<open>smbus_attach_client\<close> and \<open>smbus_detach_client\<close>; their
  bodies, and the constant \<open>I2C_CLIENT_MAX\<close> that sizes the client array of an
  adapter, are defined elsewhere. The capacity is the parameter \<open>client_max\<close>. A call
  returns its outcome (\<open>None\<close> for success), the adapter as the call leaves it, and
  the driver hooks it invoked, in order.
\<close>

datatype attach_error = AddressConflict | AdapterFull

datatype hook_call =
    Inc_use smbus_client
  | Dec_use smbus_client
  | Detach_hook smbus_client

text \<open>
  Modelled from the spec: the body of \<open>smbus_attach_client\<close> is missing from the
  header. The spec has it validate that the target adapter has spare capacity
  (\<open>client_count < max\<close>), validate that the address is not already occupied on that
  adapter, insert the client into the adapter's client list, increment
  \<open>client_count\<close> and invoke the owning driver's usage-increment hook; it fails with
  \<open>AdapterFull\<close> or \<open>AddressConflict\<close>. The adapter argument is the adapter that the
  client's \<open>adapter\<close> pointer designates.
\<close>

definition smbus_attach_client ::
  "int \<Rightarrow> smbus_client \<Rightarrow> smbus_adapter
     \<Rightarrow> attach_error option \<times> smbus_adapter \<times> hook_call list" where
  "smbus_attach_client client_max client a =
     (if \<not> client_count a < client_max then (Some AdapterFull, a, [])
      else if client_addr client \<in> set (map client_addr (clients a))
      then (Some AddressConflict, a, [])
      else (None,
            a\<lparr>clients := clients a @ [client], client_count := client_count a + 1\<rparr>,
            [Inc_use client]))"

text \<open>
  Modelled from the spec: the body of \<open>smbus_detach_client\<close> is missing from the
  header. The spec has it invoke the driver's \<open>detach_client\<close> hook, which may fail and
  abort the detach, then remove the client from the adapter's list and decrement
  \<open>client_count\<close>, then invoke the driver's usage-decrement hook. The status that the
  driver's hook returns is the argument \<open>hook_status\<close>; the outcome of the call is that
  status when it is not zero.
\<close>

definition smbus_detach_client ::
  "int \<Rightarrow> smbus_client \<Rightarrow> smbus_adapter \<Rightarrow> int option \<times> smbus_adapter \<times> hook_call list" where
  "smbus_detach_client hook_status client a =
     (if hook_status \<noteq> 0 then (Some hook_status, a, [Detach_hook client])
      else (None,
            a\<lparr>clients := remove1 client (clients a), client_count := client_count a - 1\<rparr>,
            [Detach_hook client, Dec_use client]))"

text \<open>
  A history of an adapter: attach and detach calls, each applied to the adapter that
  the previous call left.
\<close>

datatype client_op = Attach smbus_client | Detach smbus_client int

fun apply_op :: "int \<Rightarrow> client_op \<Rightarrow> smbus_adapter \<Rightarrow> smbus_adapter" where
  "apply_op client_max (Attach client) a = fst (snd (smbus_attach_client client_max client a))"
| "apply_op client_max (Detach client hook_status) a =
     fst (snd (smbus_detach_client hook_status client a))"

fun apply_ops :: "int \<Rightarrow> client_op list \<Rightarrow> smbus_adapter \<Rightarrow> smbus_adapter" where
  "apply_ops client_max [] a = a"
| "apply_ops client_max (op # ops) a = apply_ops client_max ops (apply_op client_max op a)"

section \<open>Concrete buses, adapters and clients\<close>

text \<open>
  Inputs on which the routines are evaluated below. \<open>fixed_reply status reply\<close> is a
  bus that answers every transaction with \<open>status\<close> and leaves \<open>reply\<close> in the
  union. \<open>command_probe\<close> is a bus that reports, as its status, the command byte it
  was called with, \<open>block_length_probe\<close> one that reports the byte it finds at
  \<open>block[0]\<close> of the union it is handed, and \<open>echo_bus\<close> one that succeeds and
  leaves the union as it finds it. \<open>example_adapter f\<close> is an adapter without clients, bound to the
  algorithm at address 3, whose access routine is at address \<open>f\<close>, and
  \<open>example_client a\<close> is a client at bus address \<open>a\<close>.
\<close>

definition fixed_reply :: "s32 \<Rightarrow> smbus_data \<Rightarrow> access_fn" where
  "fixed_reply status reply = (\<lambda>adapter addr read_write command size data. (status, reply))"

definition command_probe :: access_fn where
  "command_probe = (\<lambda>adapter addr read_write command size data. (ucast command, \<lambda>i. 0))"

definition block_length_probe :: access_fn where
  "block_length_probe =
     (\<lambda>adapter addr read_write command size data.
        case data of None \<Rightarrow> (- 1, \<lambda>i. 0) | Some d \<Rightarrow> (ucast (d 0), d))"

definition echo_bus :: access_fn where
  "echo_bus =
     (\<lambda>adapter addr read_write command size data.
        (0, case data of None \<Rightarrow> (\<lambda>i. 0) | Some d \<Rightarrow> d))"

definition example_adapter :: "fn_ptr \<Rightarrow> smbus_adapter" where
  "example_adapter f =
     \<lparr>adapter_name = ''bus'', adapter_id = 0, algo = 3, adapter_data = 0,
      lock = 1, adapter_flags = 0, clients = [], client_count = 0, timeout = 10,
      retries = 2, smbus_access = f\<rparr>"

definition example_client :: "u8 \<Rightarrow> smbus_client" where
  "example_client a =
     \<lparr>client_name = ''chip'', client_id = 0, client_flags = 0, client_addr = a,
      client_adapter = 1, client_driver = 2, client_data = 0\<rparr>"

section \<open>Facts about the machine types and the union\<close>

lemma uint_u8_bound: "uint (b :: u8) < 256"
  using unsigned_less [of b, where ?'a = int] by simp

lemma uint_u16_bound: "uint (b :: u16) < 65536"
  using unsigned_less [of b, where ?'a = int] by simp

lemma sint_ucast_u8: "sint (ucast (b :: u8) :: s32) = uint b"
proof -
  have "(- (2 ^ 31) :: int) \<le> 0"
    by simp
  also have "0 \<le> uint b"
    by simp
  finally have lo: "- (2 ^ 31) \<le> uint b" .
  have hi: "uint b < 2 ^ 31"
    using uint_u8_bound [of b] by simp
  from lo hi show ?thesis
    by (simp add: signed_ucast_eq signed_take_bit_int_eq_self)
qed

lemma sint_ucast_u16: "sint (ucast (b :: u16) :: s32) = uint b"
proof -
  have "(- (2 ^ 31) :: int) \<le> 0"
    by simp
  also have "0 \<le> uint b"
    by simp
  finally have lo: "- (2 ^ 31) \<le> uint b" .
  have hi: "uint b < 2 ^ 31"
    using uint_u16_bound [of b] by simp
  from lo hi show ?thesis
    by (simp add: signed_ucast_eq signed_take_bit_int_eq_self)
qed

lemma word_cat_bytes:
  "(word_cat (ucast (drop_bit 8 v) :: u8) (ucast (v :: u16) :: u8) :: u16) = v"
  by (rule bit_word_eqI) (auto simp: bit_word_cat_iff bit_ucast_iff bit_drop_bit_eq)

lemma data_word_set_data_word: "data_word e (set_data_word e v d) = v"
  by (cases e) (simp_all add: data_word_def set_data_word_def word_cat_bytes)

section \<open>Facts about the two block loops\<close>

lemma frame_data_block_store: "frame_data (block_store i v fr) = (frame_data fr)(i := v)"
  by (simp add: block_store_def)

lemma frame_log_block_store: "frame_log (block_store i v fr) = frame_log fr @ [Store i]"
  by (simp add: block_store_def)

text \<open>
  The write loop started at \<open>i\<close> stores \<open>values[j-1]\<close> at every index \<open>j\<close> from \<open>i\<close>
  to \<open>len\<close> and nothing else, one store per index, in increasing order.
\<close>

lemma write_block_loop_data:
  "frame_data (write_block_loop i len vals fr) j =
     (if i \<le> j \<and> j \<le> unat len then vals (j - 1) else frame_data fr j)"
proof (induction i len vals fr rule: write_block_loop.induct)
  case (1 i len vals fr)
  show ?case
  proof (cases "i \<le> unat len")
    case True
    then show ?thesis
      using "1.IH" by (subst write_block_loop.simps) (auto simp: frame_data_block_store)
  next
    case False
    then show ?thesis
      by (subst write_block_loop.simps) auto
  qed
qed

lemma write_block_loop_log:
  "frame_log (write_block_loop i len vals fr) = frame_log fr @ map Store [i..<Suc (unat len)]"
proof (induction i len vals fr rule: write_block_loop.induct)
  case (1 i len vals fr)
  show ?case
  proof (cases "i \<le> unat len")
    case True
    then have "[i..<Suc (unat len)] = i # [Suc i..<Suc (unat len)]"
      by (simp add: upt_conv_Cons)
    with True show ?thesis
      using "1.IH" by (subst write_block_loop.simps) (simp add: frame_log_block_store)
  next
    case False
    then show ?thesis
      by (subst write_block_loop.simps) simp
  qed
qed

text \<open>
  One turn of the read loop, with the two loads written out.
\<close>

lemma read_block_loop_unfold:
  "read_block_loop i vals fr =
     (if i \<le> unat (frame_data fr 0)
      then read_block_loop (i + 1) (vals(i - 1 := frame_data fr i))
             (fr\<lparr>frame_log := frame_log fr @ [Load 0, Load i]\<rparr>)
      else (vals, fr\<lparr>frame_log := frame_log fr @ [Load 0]\<rparr>))"
  by (subst read_block_loop.simps) (simp add: block_load_def)

lemma read_block_loop_frame_data:
  "frame_data (snd (read_block_loop i vals fr)) = frame_data fr"
proof (induction "Suc (unat (frame_data fr 0)) - i" arbitrary: i vals fr)
  case 0
  then show ?case
    by (subst read_block_loop_unfold) simp
next
  case (Suc k)
  then show ?case
    by (subst read_block_loop_unfold) simp
qed

lemma read_block_loop_values:
  "1 \<le> i \<Longrightarrow> fst (read_block_loop i vals fr) j =
     (if i \<le> Suc j \<and> j < unat (frame_data fr 0) then frame_data fr (Suc j) else vals j)"
proof (induction "Suc (unat (frame_data fr 0)) - i" arbitrary: i vals fr)
  case 0
  then show ?case
    by (subst read_block_loop_unfold) auto
next
  case (Suc k)
  let ?fr = "fr\<lparr>frame_log := frame_log fr @ [Load 0, Load i]\<rparr>"
  from Suc.hyps(2) have le: "i \<le> unat (frame_data fr 0)"
    and k: "k = Suc (unat (frame_data fr 0)) - (i + 1)"
    by simp_all
  have IH: "fst (read_block_loop (i + 1) (vals(i - 1 := frame_data fr i)) ?fr) j =
     (if i + 1 \<le> Suc j \<and> j < unat (frame_data fr 0) then frame_data fr (Suc j)
      else (vals(i - 1 := frame_data fr i)) j)"
    using Suc.hyps(1) [of ?fr "i + 1" "vals(i - 1 := frame_data fr i)"] k
    by simp
  show ?case
    using le Suc.prems IH
    by (subst read_block_loop_unfold) (auto simp: Suc_le_eq less_Suc_eq)
qed

lemma read_block_loop_log:
  "frame_log (snd (read_block_loop i vals fr)) =
     frame_log fr
       @ concat (map (\<lambda>k. [Load 0, Load k]) [i..<Suc (unat (frame_data fr 0))])
       @ [Load 0]"
proof (induction "Suc (unat (frame_data fr 0)) - i" arbitrary: i vals fr)
  case 0
  then show ?case
    by (subst read_block_loop_unfold) simp
next
  case (Suc k)
  let ?n = "unat (frame_data fr 0)"
  let ?fr = "fr\<lparr>frame_log := frame_log fr @ [Load 0, Load i]\<rparr>"
  from Suc.hyps(2) have le: "i \<le> ?n"
    and k: "k = Suc (unat (frame_data ?fr 0)) - (i + 1)"
    by simp_all
  from le have upt: "[i..<Suc ?n] = i # [i + 1..<Suc ?n]"
    by (simp add: upt_conv_Cons del: upt_Suc)
  have "frame_log (snd (read_block_loop (i + 1) (vals(i - 1 := frame_data fr i)) ?fr)) =
      frame_log ?fr
        @ concat (map (\<lambda>k. [Load 0, Load k]) [i + 1..<Suc (unat (frame_data ?fr 0))])
        @ [Load 0]"
    using k by (rule Suc.hyps(1))
  then have "frame_log (snd (read_block_loop (i + 1) (vals(i - 1 := frame_data fr i)) ?fr)) =
      frame_log fr @ concat (map (\<lambda>k. [Load 0, Load k]) [i..<Suc ?n]) @ [Load 0]"
    by (simp add: upt del: upt_Suc)
  with le show ?case
    by (subst read_block_loop_unfold) (simp del: upt_Suc)
qed

section \<open>The block routines in closed form\<close>

lemma clamp_min: "(if 32 < len then 32 else len :: u8) = min len 32"
  by (auto simp: min_def)

text \<open>
  What \<open>smbus_write_block_data\<close> hands to \<open>smbus_access\<close>, and the indices it stores
  at, for any length.
\<close>

lemma smbus_write_block_data_eq:
  "smbus_write_block_data access adapter addr command len vals data0 =
     (fst (access adapter addr SMBUS_WRITE command SMBUS_BLOCK_DATA
        (Some (\<lambda>i. if i = 0 then min len 32
                    else if i \<le> unat (min len 32) then vals (i - 1)
                    else data0 i))),
      map Store [1..<Suc (unat (min len 32))] @ [Store 0])"
proof -
  let ?len = "min len 32"
  let ?fr = "write_block_loop 1 ?len vals \<lparr>frame_data = data0, frame_log = []\<rparr>"
  have d: "frame_data (block_store 0 ?len ?fr) =
      (\<lambda>i. if i = 0 then ?len else if i \<le> unat ?len then vals (i - 1) else data0 i)"
    by (rule ext) (simp add: frame_data_block_store write_block_loop_data)
  have l: "frame_log (block_store 0 ?len ?fr) = map Store [1..<Suc (unat ?len)] @ [Store 0]"
    by (simp add: frame_log_block_store write_block_loop_log del: upt_Suc)
  show ?thesis
    unfolding smbus_write_block_data_def Let_def clamp_min d l ..
qed

lemma write_block_data_log:
  "snd (smbus_write_block_data access adapter addr command len vals data0) =
     map Store [1..<Suc (unat (min len 32))] @ [Store 0]"
  by (simp add: smbus_write_block_data_eq)

text \<open>
  What \<open>smbus_read_block_data\<close> returns, leaves in the caller's buffer and loads,
  after a failed and after a successful access.
\<close>

lemma smbus_read_block_data_failure:
  "fst (access adapter addr SMBUS_READ command SMBUS_BLOCK_DATA (Some data0)) \<noteq> 0 \<Longrightarrow>
   smbus_read_block_data access adapter addr command vals data0 = (- 1, vals, [])"
  by (cases "access adapter addr SMBUS_READ command SMBUS_BLOCK_DATA (Some data0)")
    (simp add: smbus_read_block_data_def)

lemma smbus_read_block_data_success:
  assumes "access adapter addr SMBUS_READ command SMBUS_BLOCK_DATA (Some data0) = (0, d)"
  shows "smbus_read_block_data access adapter addr command vals data0 =
     (ucast (d 0),
      (\<lambda>j. if j < unat (d 0) then d (Suc j) else vals j),
      concat (map (\<lambda>k. [Load 0, Load k]) [1..<Suc (unat (d 0))]) @ [Load 0, Load 0])"
proof -
  let ?fr = "\<lparr>frame_data = d, frame_log = []\<rparr>"
  obtain vs fr where r: "read_block_loop 1 vals ?fr = (vs, fr)"
    by (cases "read_block_loop 1 vals ?fr")
  have v: "vs = (\<lambda>j. if j < unat (d 0) then d (Suc j) else vals j)"
    using read_block_loop_values [of 1 vals ?fr] r by (intro ext) simp
  have fd: "frame_data fr = d"
    using read_block_loop_frame_data [of 1 vals ?fr] r by simp
  have fl: "frame_log fr =
      concat (map (\<lambda>k. [Load 0, Load k]) [1..<Suc (unat (d 0))]) @ [Load 0]"
    using read_block_loop_log [of 1 vals ?fr] r by (simp del: upt_Suc)
  show ?thesis
    using assms r
    by (simp add: smbus_read_block_data_def block_load_def v fd fl del: upt_Suc)
qed

lemma smbus_read_block_data_eq:
  "smbus_read_block_data access adapter addr command vals data0 =
     (let r = access adapter addr SMBUS_READ command SMBUS_BLOCK_DATA (Some data0)
      in if fst r = 0
         then (ucast (snd r 0),
               (\<lambda>j. if j < unat (snd r 0) then snd r (Suc j) else vals j),
               concat (map (\<lambda>k. [Load 0, Load k]) [1..<Suc (unat (snd r 0))])
                 @ [Load 0, Load 0])
         else (- 1, vals, []))"
proof (cases "access adapter addr SMBUS_READ command SMBUS_BLOCK_DATA (Some data0)")
  case (Pair status d)
  show ?thesis
  proof (cases "status = 0")
    case True
    with Pair have "access adapter addr SMBUS_READ command SMBUS_BLOCK_DATA (Some data0) = (0, d)"
      by simp
    from smbus_read_block_data_success [of access adapter addr command data0 d vals, OF this]
      Pair True show ?thesis
      by (simp del: upt_Suc cong: if_cong)
  next
    case False
    with Pair smbus_read_block_data_failure [of access adapter addr command data0 vals]
    show ?thesis
      by simp
  qed
qed

section \<open>The scalar routines in closed form\<close>

text \<open>
  Each reading routine, as a function of what its one call of \<open>smbus_access\<close> returns.
\<close>

lemma smbus_read_byte_eq:
  "smbus_read_byte access adapter addr data0 =
     (let r = access adapter addr SMBUS_READ 0 SMBUS_BYTE (Some data0)
      in if fst r = 0 then ucast (data_byte (snd r)) else - 1)"
  by (simp add: smbus_read_byte_def Let_def split: prod.splits)

lemma smbus_read_byte_data_eq:
  "smbus_read_byte_data access adapter addr command data0 =
     (let r = access adapter addr SMBUS_READ command SMBUS_BYTE_DATA (Some data0)
      in if fst r = 0 then ucast (data_byte (snd r)) else - 1)"
  by (simp add: smbus_read_byte_data_def Let_def split: prod.splits)

lemma smbus_read_word_data_eq:
  "smbus_read_word_data e access adapter addr command data0 =
     (let r = access adapter addr SMBUS_READ command SMBUS_WORD_DATA (Some data0)
      in if fst r = 0 then ucast (data_word e (snd r)) else - 1)"
  by (simp add: smbus_read_word_data_def Let_def split: prod.splits)

lemma smbus_process_call_eq:
  "smbus_process_call e access adapter addr command value data0 =
     (let r = access adapter addr SMBUS_WRITE command SMBUS_PROC_CALL
                (Some (set_data_word e value data0))
      in if fst r = 0 then ucast (data_word e (snd r)) else - 1)"
  by (simp add: smbus_process_call_def Let_def split: prod.splits)

text \<open>
  A byte or a 16-bit word widened to \<open>s32\<close> is not negative, and so is not \<open>-1\<close>.
\<close>

lemma u8_result_range:
  "0 \<le> sint (ucast (b :: u8) :: s32) \<and> sint (ucast b :: s32) \<le> 255
   \<and> (ucast b :: s32) \<noteq> - 1"
proof -
  have nonneg: "(0 :: int) \<le> uint b"
    by simp
  have "sint (- 1 :: s32) = - 1"
    by simp
  with nonneg have "sint (ucast b :: s32) \<noteq> sint (- 1 :: s32)"
    unfolding sint_ucast_u8 by arith
  then have "(ucast b :: s32) \<noteq> - 1"
    by auto
  then show ?thesis
    using uint_u8_bound [of b] by (simp add: sint_ucast_u8)
qed

lemma u16_result_range:
  "0 \<le> sint (ucast (w :: u16) :: s32) \<and> sint (ucast w :: s32) \<le> 65535
   \<and> (ucast w :: s32) \<noteq> - 1"
proof -
  have nonneg: "(0 :: int) \<le> uint w"
    by simp
  have "sint (- 1 :: s32) = - 1"
    by simp
  with nonneg have "sint (ucast w :: s32) \<noteq> sint (- 1 :: s32)"
    unfolding sint_ucast_u16 by arith
  then have "(ucast w :: s32) \<noteq> - 1"
    by auto
  then show ?thesis
    using uint_u16_bound [of w] by (simp add: sint_ucast_u16)
qed

section \<open>The client count under attach and detach\<close>

lemma attach_client_count:
  "client_count a \<le> client_max \<Longrightarrow>
   client_count (fst (snd (smbus_attach_client client_max client a))) \<le> client_max"
  by (simp add: smbus_attach_client_def)

lemma detach_client_count:
  "client_count a \<le> client_max \<Longrightarrow>
   client_count (fst (snd (smbus_detach_client hook_status client a))) \<le> client_max"
  by (simp add: smbus_detach_client_def)

lemma apply_op_count:
  "client_count a \<le> client_max \<Longrightarrow> client_count (apply_op client_max op a) \<le> client_max"
  by (cases op) (simp_all add: attach_client_count detach_client_count)

lemma apply_ops_count:
  "client_count a \<le> client_max \<Longrightarrow> client_count (apply_ops client_max ops a) \<le> client_max"
  by (induction ops arbitrary: a) (simp_all add: apply_op_count)

section \<open>Indices into the block array\<close>

text \<open>
  When the indices stay inside the array: the stores of a block write do exactly when
  the length is below 32, and the loads of a successful block read do exactly when the
  length byte left in \<open>data.block[0]\<close> is below 32.
\<close>

lemma stores_in_bounds:
  "list_all in_bounds (map Store [1..<Suc n] @ [Store 0]) \<longleftrightarrow> n < block_size"
proof
  assume a: "list_all in_bounds (map Store [1..<Suc n] @ [Store 0])"
  show "n < block_size"
  proof (cases "n = 0")
    case True
    then show ?thesis by (simp add: block_size_def)
  next
    case False
    then have "n \<in> set [1..<Suc n]"
      by simp
    with a show ?thesis
      by (simp add: list_all_iff del: upt_Suc)
  qed
next
  assume "n < block_size"
  then show "list_all in_bounds (map Store [1..<Suc n] @ [Store 0])"
    by (auto simp: list_all_iff block_size_def simp del: upt_Suc)
qed

lemma loads_in_bounds:
  "list_all in_bounds (concat (map (\<lambda>k. [Load 0, Load k]) [1..<Suc n]) @ [Load 0, Load 0])
     \<longleftrightarrow> n < block_size"
proof
  assume a: "list_all in_bounds
      (concat (map (\<lambda>k. [Load 0, Load k]) [1..<Suc n]) @ [Load 0, Load 0])"
  show "n < block_size"
  proof (cases "n = 0")
    case True
    then show ?thesis by (simp add: block_size_def)
  next
    case False
    then have "n \<in> set [1..<Suc n]"
      by simp
    with a show ?thesis
      by (simp add: list_all_iff del: upt_Suc)
  qed
next
  assume "n < block_size"
  then show "list_all in_bounds
      (concat (map (\<lambda>k. [Load 0, Load k]) [1..<Suc n]) @ [Load 0, Load 0])"
    by (auto simp: list_all_iff block_size_def simp del: upt_Suc)
qed

lemma unat_min_32: "unat (min len 32 :: u8) < block_size \<longleftrightarrow> len < 32"
  by (auto simp: min_def block_size_def word_less_nat_alt word_le_nat_alt)

lemma write_block_data_in_bounds_iff:
  "list_all in_bounds (snd (smbus_write_block_data access adapter addr command len vals data0))
     \<longleftrightarrow> len < 32"
  unfolding write_block_data_log stores_in_bounds unat_min_32 ..

lemma read_block_data_in_bounds_iff:
  assumes "access adapter addr SMBUS_READ command SMBUS_BLOCK_DATA (Some data0) = (0, d)"
  shows "list_all in_bounds
           (snd (snd (smbus_read_block_data access adapter addr command vals data0)))
     \<longleftrightarrow> d 0 < 32"
proof -
  have "unat (d 0) < block_size \<longleftrightarrow> d 0 < 32"
    by (simp add: block_size_def word_less_nat_alt)
  then show ?thesis
    unfolding smbus_read_block_data_success
      [of access adapter addr command data0 d vals, OF assms] snd_conv loads_in_bounds .
qed

text \<open>
  Claim C2. Every access into the 32-byte array \<open>data.block\<close> stays in bounds: every
  store of \<open>smbus_write_block_data\<close> and every load of \<open>smbus_read_block_data\<close> uses an
  index below 32. The code does not keep this. With length 32 (and so with every
  greater length) the write loop runs \<open>i\<close> up to 32 and stores at \<open>data.block[32]\<close>,
  and after a successful access that leaves 32 in \<open>data.block[0]\<close> the read loop loads
  \<open>data.block[32]\<close>; index 32 is the first one past the array.
\<close>

theorem block_index_32_out_of_bounds:
  "Store 32 \<in> set (snd (smbus_write_block_data access adapter addr command 32 values data0))
   \<and> \<not> in_bounds (Store 32)
   \<and> Load 32 \<in> set (snd (snd (smbus_read_block_data (fixed_reply 0 (\<lambda>i. 32))
                                  adapter addr command values data0)))
   \<and> \<not> in_bounds (Load 32)"
proof -
  have "fixed_reply 0 (\<lambda>i. 32) adapter addr SMBUS_READ command SMBUS_BLOCK_DATA (Some data0) =
      (0, \<lambda>i. 32)"
    by (simp add: fixed_reply_def)
  from smbus_read_block_data_success
    [of "fixed_reply 0 (\<lambda>i. 32)" adapter addr command data0 "\<lambda>i. 32" "values", OF this]
  have "Load 32 \<in> set (snd (snd (smbus_read_block_data (fixed_reply 0 (\<lambda>i. 32))
                                  adapter addr command values data0)))"
    by (simp del: upt_Suc)
  then show ?thesis
    by (simp add: write_block_data_log block_size_def)
qed




text \<open>
  Below 32 every access of the two routines is to the array, and they do what their
  names say: the write hands \<open>smbus_access\<close> the length in \<open>block[0]\<close> and
  \<open>values[i-1]\<close> in \<open>block[i]\<close>; the read returns the length byte and copies that
  many bytes, \<open>values[i-1] = data.block[i]\<close>, leaving the rest of \<open>values\<close> alone.
\<close>

lemma write_block_data_below_32:
  assumes "len < 32"
  shows "smbus_write_block_data access adapter addr command len vals data0 =
     (fst (access adapter addr SMBUS_WRITE command SMBUS_BLOCK_DATA
        (Some (\<lambda>i. if i = 0 then len else if i \<le> unat len then vals (i - 1) else data0 i))),
      map Store [1..<Suc (unat len)] @ [Store 0])"
    and "list_all in_bounds
      (snd (smbus_write_block_data access adapter addr command len vals data0))"
proof -
  from assms less_imp_le [of len 32] have m: "min len 32 = len"
    by (simp add: min_absorb1)
  show "smbus_write_block_data access adapter addr command len vals data0 =
     (fst (access adapter addr SMBUS_WRITE command SMBUS_BLOCK_DATA
        (Some (\<lambda>i. if i = 0 then len else if i \<le> unat len then vals (i - 1) else data0 i))),
      map Store [1..<Suc (unat len)] @ [Store 0])"
    unfolding smbus_write_block_data_eq m ..
  from assms show "list_all in_bounds
      (snd (smbus_write_block_data access adapter addr command len vals data0))"
    by (simp add: write_block_data_in_bounds_iff)
qed

lemma read_block_data_below_32:
  assumes "access adapter addr SMBUS_READ command SMBUS_BLOCK_DATA (Some data0) = (0, d)"
    and "d 0 < 32"
  shows "fst (smbus_read_block_data access adapter addr command vals data0) = ucast (d 0)"
    and "1 \<le> i \<Longrightarrow> i \<le> unat (d 0) \<Longrightarrow>
      fst (snd (smbus_read_block_data access adapter addr command vals data0)) (i - 1) = d i"
    and "unat (d 0) \<le> j \<Longrightarrow>
      fst (snd (smbus_read_block_data access adapter addr command vals data0)) j = vals j"
    and "list_all in_bounds
      (snd (snd (smbus_read_block_data access adapter addr command vals data0)))"
proof -
  note eq = smbus_read_block_data_success [of access adapter addr command data0 d vals, OF assms(1)]
  show "fst (smbus_read_block_data access adapter addr command vals data0) = ucast (d 0)"
    by (simp add: eq)
  show "1 \<le> i \<Longrightarrow> i \<le> unat (d 0) \<Longrightarrow>
      fst (snd (smbus_read_block_data access adapter addr command vals data0)) (i - 1) = d i"
    by (auto simp: eq)
  show "unat (d 0) \<le> j \<Longrightarrow>
      fst (snd (smbus_read_block_data access adapter addr command vals data0)) j = vals j"
    by (simp add: eq)
  show "list_all in_bounds
      (snd (snd (smbus_read_block_data access adapter addr command vals data0)))"
    using assms by (simp add: read_block_data_in_bounds_iff)
qed



section \<open>The command byte\<close>

text \<open>
  Claim C3 says that the byte sent by \<open>smbus_write_byte\<close> does not travel in the
  command parameter of \<open>smbus_access\<close>. It does: on the bus that reports the command
  byte it was called with, \<open>smbus_write_byte\<close> with value \<open>0x5A\<close> reports \<open>0x5A\<close> and
  with value \<open>0xA5\<close> reports \<open>0xA5\<close>; and on the bus that reports the length byte of
  the union it is handed, it reports \<open>-1\<close>, the answer of that bus to a null data
  pointer. The value is the command argument, and there is no union.
\<close>

theorem write_byte_value_in_command_counterexample:
  "smbus_write_byte command_probe 1 0x48 0x5A = 0x5A
   \<and> smbus_write_byte command_probe 1 0x48 0xA5 = 0xA5
   \<and> smbus_write_byte block_length_probe 1 0x48 0x5A = - 1"
  by (simp add: smbus_write_byte_def command_probe_def block_length_probe_def)

text \<open>
  Claim C3, amended. The command argument of the one call of \<open>smbus_access\<close> is: the
  constant 0 for \<open>smbus_write_quick\<close> and for \<open>smbus_read_byte\<close>, where it carries
  nothing; the byte to send for \<open>smbus_write_byte\<close>, which passes a null data pointer;
  and the caller's \<open>command\<close> for the byte-data, word-data, process-call and block
  routines, which carry their data in the union.
\<close>

theorem command_byte_of_each_routine:
  "smbus_write_quick access adapter addr value =
     fst (access adapter addr value 0 SMBUS_QUICK None)
   \<and> smbus_read_byte access adapter addr data0 =
     (let r = access adapter addr SMBUS_READ 0 SMBUS_BYTE (Some data0)
      in if fst r = 0 then ucast (data_byte (snd r)) else - 1)
   \<and> smbus_write_byte access adapter addr value =
     fst (access adapter addr SMBUS_WRITE value SMBUS_BYTE None)
   \<and> smbus_read_byte_data access adapter addr command data0 =
     (let r = access adapter addr SMBUS_READ command SMBUS_BYTE_DATA (Some data0)
      in if fst r = 0 then ucast (data_byte (snd r)) else - 1)
   \<and> smbus_write_byte_data access adapter addr command value data0 =
     fst (access adapter addr SMBUS_WRITE command SMBUS_BYTE_DATA
            (Some (set_data_byte value data0)))
   \<and> smbus_read_word_data e access adapter addr command data0 =
     (let r = access adapter addr SMBUS_READ command SMBUS_WORD_DATA (Some data0)
      in if fst r = 0 then ucast (data_word e (snd r)) else - 1)
   \<and> smbus_write_word_data e access adapter addr command word_value data0 =
     fst (access adapter addr SMBUS_WRITE command SMBUS_WORD_DATA
            (Some (set_data_word e word_value data0)))
   \<and> smbus_process_call e access adapter addr command word_value data0 =
     (let r = access adapter addr SMBUS_WRITE command SMBUS_PROC_CALL
                (Some (set_data_word e word_value data0))
      in if fst r = 0 then ucast (data_word e (snd r)) else - 1)
   \<and> fst (smbus_read_block_data access adapter addr command values data0) =
     (let r = access adapter addr SMBUS_READ command SMBUS_BLOCK_DATA (Some data0)
      in if fst r = 0 then ucast (snd r 0) else - 1)
   \<and> fst (smbus_write_block_data access adapter addr command len values data0) =
     fst (access adapter addr SMBUS_WRITE command SMBUS_BLOCK_DATA
            (Some (\<lambda>i. if i = 0 then min len 32
                        else if i \<le> unat (min len 32) then values (i - 1)
                        else data0 i)))"
  by (simp add: smbus_write_quick_def smbus_read_byte_eq smbus_write_byte_def
      smbus_read_byte_data_eq smbus_write_byte_data_def smbus_read_word_data_eq
      smbus_write_word_data_def smbus_process_call_eq smbus_read_block_data_eq
      smbus_write_block_data_eq Let_def)

section \<open>Results of the reading routines\<close>

text \<open>
  Claim C4. For every adapter, address and command, \<open>smbus_read_byte\<close> and
  \<open>smbus_read_byte_data\<close> return the byte view, and \<open>smbus_read_word_data\<close> returns the
  word view, of the union as \<open>smbus_access\<close> left it when \<open>smbus_access\<close> reports
  status 0, and return \<open>-1\<close> when it reports any other status. Each calls
  \<open>smbus_access\<close> with the read marker and its own transaction type.
\<close>

theorem read_wrappers_unmarshal:
  "(fst (access adapter addr SMBUS_READ 0 SMBUS_BYTE (Some data0)) = 0 \<longrightarrow>
      smbus_read_byte access adapter addr data0 =
        ucast (data_byte (snd (access adapter addr SMBUS_READ 0 SMBUS_BYTE (Some data0)))))
   \<and> (fst (access adapter addr SMBUS_READ 0 SMBUS_BYTE (Some data0)) \<noteq> 0 \<longrightarrow>
      smbus_read_byte access adapter addr data0 = - 1)
   \<and> (fst (access adapter addr SMBUS_READ command SMBUS_BYTE_DATA (Some data0)) = 0 \<longrightarrow>
      smbus_read_byte_data access adapter addr command data0 =
        ucast (data_byte (snd (access adapter addr SMBUS_READ command SMBUS_BYTE_DATA
                                 (Some data0)))))
   \<and> (fst (access adapter addr SMBUS_READ command SMBUS_BYTE_DATA (Some data0)) \<noteq> 0 \<longrightarrow>
      smbus_read_byte_data access adapter addr command data0 = - 1)
   \<and> (fst (access adapter addr SMBUS_READ command SMBUS_WORD_DATA (Some data0)) = 0 \<longrightarrow>
      smbus_read_word_data e access adapter addr command data0 =
        ucast (data_word e (snd (access adapter addr SMBUS_READ command SMBUS_WORD_DATA
                                   (Some data0)))))
   \<and> (fst (access adapter addr SMBUS_READ command SMBUS_WORD_DATA (Some data0)) \<noteq> 0 \<longrightarrow>
      smbus_read_word_data e access adapter addr command data0 = - 1)"
  by (simp add: smbus_read_byte_eq smbus_read_byte_data_eq smbus_read_word_data_eq Let_def)

text \<open>
  The theorem on a bus that answers \<open>0x2A\<close> in every byte of the union, once with
  status 0 and once with status \<open>-5\<close>.
\<close>

theorem read_wrappers_unmarshal_witness:
  "smbus_read_byte (fixed_reply 0 (\<lambda>i. 0x2A)) 1 0x48 (\<lambda>i. 0) = 0x2A
   \<and> smbus_read_byte (fixed_reply (- 5) (\<lambda>i. 0x2A)) 1 0x48 (\<lambda>i. 0) = - 1
   \<and> smbus_read_byte_data (fixed_reply 0 (\<lambda>i. 0x2A)) 1 0x48 3 (\<lambda>i. 0) = 0x2A
   \<and> smbus_read_byte_data (fixed_reply (- 5) (\<lambda>i. 0x2A)) 1 0x48 3 (\<lambda>i. 0) = - 1
   \<and> smbus_read_word_data Big_endian (fixed_reply 0 (\<lambda>i. 0x2A)) 1 0x48 3 (\<lambda>i. 0) = 0x2A2A
   \<and> smbus_read_word_data Big_endian (fixed_reply (- 5) (\<lambda>i. 0x2A)) 1 0x48 3 (\<lambda>i. 0) = - 1"
proof -
  have ok: "fst (fixed_reply 0 (\<lambda>i. 0x2A) a b c d e f) = 0"
    and reply: "snd (fixed_reply s (\<lambda>i. 0x2A) a b c d e f) = (\<lambda>i. 0x2A)"
    and bad: "fst (fixed_reply (- 5) (\<lambda>i. 0x2A) a b c d e f) \<noteq> 0" for s a b c d e f
    by (simp_all add: fixed_reply_def)
  have w: "(ucast (data_word Big_endian (\<lambda>i. 0x2A)) :: s32) = 0x2A2A"
    by (simp add: data_word_def word_cat_eq)
  have b: "(ucast (data_byte (\<lambda>i. 0x2A)) :: s32) = 0x2A"
    by (simp add: data_byte_def)
  note good = read_wrappers_unmarshal
    [of "fixed_reply 0 (\<lambda>i. 0x2A)" 1 "0x48" "\<lambda>i. 0" 3 Big_endian]
  note fail = read_wrappers_unmarshal
    [of "fixed_reply (- 5) (\<lambda>i. 0x2A)" 1 "0x48" "\<lambda>i. 0" 3 Big_endian]
  from good fail show ?thesis
    unfolding ok reply w b using bad by blast
qed

text \<open>
  Claim C6. For every adapter, address, command and 16-bit value,
  \<open>smbus_process_call\<close> puts the value into the word view of the union, calls
  \<open>smbus_access\<close> with the write marker and the process-call type on that union, and
  returns the word view of the union as the access left it when the access reports
  status 0, and \<open>-1\<close> when it reports any other status.
\<close>

theorem process_call_marshals:
  "data_word e (set_data_word e value data0) = value
   \<and> (fst (access adapter addr SMBUS_WRITE command SMBUS_PROC_CALL
              (Some (set_data_word e value data0))) = 0 \<longrightarrow>
        smbus_process_call e access adapter addr command value data0 =
          ucast (data_word e (snd (access adapter addr SMBUS_WRITE command SMBUS_PROC_CALL
                                     (Some (set_data_word e value data0))))))
   \<and> (fst (access adapter addr SMBUS_WRITE command SMBUS_PROC_CALL
              (Some (set_data_word e value data0))) \<noteq> 0 \<longrightarrow>
        smbus_process_call e access adapter addr command value data0 = - 1)"
  by (simp add: smbus_process_call_eq data_word_set_data_word Let_def)

text \<open>
  The theorem on the bus that leaves the union as it finds it, where the word read back
  is the word \<open>0xBEEF\<close> that was written, and on a bus that fails.
\<close>

theorem process_call_marshals_witness:
  "smbus_process_call Little_endian echo_bus 1 0x48 3 0xBEEF (\<lambda>i. 0) = 0xBEEF
   \<and> smbus_process_call Little_endian (fixed_reply (- 5) (\<lambda>i. 0)) 1 0x48 3 0xBEEF (\<lambda>i. 0) = - 1"
proof -
  have ok: "fst (echo_bus a b c d e f) = 0" and echo: "snd (echo_bus a b c d e (Some g)) = g"
    and bad: "fst (fixed_reply (- 5) (\<lambda>i. 0) a b c d e f) \<noteq> 0" for a b c d e f g
    by (simp_all add: echo_bus_def fixed_reply_def)
  note good = process_call_marshals [of Little_endian "0xBEEF" "\<lambda>i. 0" echo_bus 1 "0x48" 3]
  note fail = process_call_marshals
    [of Little_endian "0xBEEF" "\<lambda>i. 0" "fixed_reply (- 5) (\<lambda>i. 0)" 1 "0x48" 3]
  from good have "smbus_process_call Little_endian echo_bus 1 0x48 3 0xBEEF (\<lambda>i. 0) =
      ucast (0xBEEF :: u16)"
    unfolding ok echo by presburger
  moreover from fail bad
  have "smbus_process_call Little_endian (fixed_reply (- 5) (\<lambda>i. 0)) 1 0x48 3 0xBEEF (\<lambda>i. 0) = - 1"
    by blast
  ultimately show ?thesis
    by simp
qed

text \<open>
  Claim C10. Whenever \<open>smbus_access\<close> returns status 0, each of \<open>smbus_read_byte\<close>,
  \<open>smbus_read_byte_data\<close>, \<open>smbus_read_word_data\<close>, \<open>smbus_process_call\<close> and
  \<open>smbus_read_block_data\<close> returns a value that, read as a signed number, is not
  negative: a byte in 0..255, a word in 0..65535, or a count in 0..255; so it is never
  \<open>-1\<close>. Whenever \<open>smbus_access\<close> returns a status other than 0, whichever it is, each
  of them returns \<open>-1\<close>.
\<close>

theorem read_results_separate_failure:
  "(fst (access adapter addr SMBUS_READ 0 SMBUS_BYTE (Some data0)) = 0 \<longrightarrow>
      0 \<le> sint (smbus_read_byte access adapter addr data0)
      \<and> sint (smbus_read_byte access adapter addr data0) \<le> 255
      \<and> smbus_read_byte access adapter addr data0 \<noteq> - 1)
   \<and> (fst (access adapter addr SMBUS_READ 0 SMBUS_BYTE (Some data0)) \<noteq> 0 \<longrightarrow>
      smbus_read_byte access adapter addr data0 = - 1)
   \<and> (fst (access adapter addr SMBUS_READ command SMBUS_BYTE_DATA (Some data0)) = 0 \<longrightarrow>
      0 \<le> sint (smbus_read_byte_data access adapter addr command data0)
      \<and> sint (smbus_read_byte_data access adapter addr command data0) \<le> 255
      \<and> smbus_read_byte_data access adapter addr command data0 \<noteq> - 1)
   \<and> (fst (access adapter addr SMBUS_READ command SMBUS_BYTE_DATA (Some data0)) \<noteq> 0 \<longrightarrow>
      smbus_read_byte_data access adapter addr command data0 = - 1)
   \<and> (fst (access adapter addr SMBUS_READ command SMBUS_WORD_DATA (Some data0)) = 0 \<longrightarrow>
      0 \<le> sint (smbus_read_word_data e access adapter addr command data0)
      \<and> sint (smbus_read_word_data e access adapter addr command data0) \<le> 65535
      \<and> smbus_read_word_data e access adapter addr command data0 \<noteq> - 1)
   \<and> (fst (access adapter addr SMBUS_READ command SMBUS_WORD_DATA (Some data0)) \<noteq> 0 \<longrightarrow>
      smbus_read_word_data e access adapter addr command data0 = - 1)
   \<and> (fst (access adapter addr SMBUS_WRITE command SMBUS_PROC_CALL
              (Some (set_data_word e value data0))) = 0 \<longrightarrow>
      0 \<le> sint (smbus_process_call e access adapter addr command value data0)
      \<and> sint (smbus_process_call e access adapter addr command value data0) \<le> 65535
      \<and> smbus_process_call e access adapter addr command value data0 \<noteq> - 1)
   \<and> (fst (access adapter addr SMBUS_WRITE command SMBUS_PROC_CALL
              (Some (set_data_word e value data0))) \<noteq> 0 \<longrightarrow>
      smbus_process_call e access adapter addr command value data0 = - 1)
   \<and> (fst (access adapter addr SMBUS_READ command SMBUS_BLOCK_DATA (Some data0)) = 0 \<longrightarrow>
      0 \<le> sint (fst (smbus_read_block_data access adapter addr command values data0))
      \<and> sint (fst (smbus_read_block_data access adapter addr command values data0)) \<le> 255
      \<and> fst (smbus_read_block_data access adapter addr command values data0) \<noteq> - 1)
   \<and> (fst (access adapter addr SMBUS_READ command SMBUS_BLOCK_DATA (Some data0)) \<noteq> 0 \<longrightarrow>
      fst (smbus_read_block_data access adapter addr command values data0) = - 1)"
proof (intro conjI impI)
  assume "fst (access adapter addr SMBUS_READ 0 SMBUS_BYTE (Some data0)) = 0"
  then have r: "smbus_read_byte access adapter addr data0 =
      ucast (data_byte (snd (access adapter addr SMBUS_READ 0 SMBUS_BYTE (Some data0))))"
    by (simp add: smbus_read_byte_eq Let_def)
  show "0 \<le> sint (smbus_read_byte access adapter addr data0)"
    and "sint (smbus_read_byte access adapter addr data0) \<le> 255"
    and "smbus_read_byte access adapter addr data0 \<noteq> - 1"
    unfolding r using u8_result_range by blast+
next
  assume "fst (access adapter addr SMBUS_READ 0 SMBUS_BYTE (Some data0)) \<noteq> 0"
  then show "smbus_read_byte access adapter addr data0 = - 1"
    by (simp add: smbus_read_byte_eq Let_def)
next
  assume "fst (access adapter addr SMBUS_READ command SMBUS_BYTE_DATA (Some data0)) = 0"
  then have r: "smbus_read_byte_data access adapter addr command data0 =
      ucast (data_byte (snd (access adapter addr SMBUS_READ command SMBUS_BYTE_DATA
                               (Some data0))))"
    by (simp add: smbus_read_byte_data_eq Let_def)
  show "0 \<le> sint (smbus_read_byte_data access adapter addr command data0)"
    and "sint (smbus_read_byte_data access adapter addr command data0) \<le> 255"
    and "smbus_read_byte_data access adapter addr command data0 \<noteq> - 1"
    unfolding r using u8_result_range by blast+
next
  assume "fst (access adapter addr SMBUS_READ command SMBUS_BYTE_DATA (Some data0)) \<noteq> 0"
  then show "smbus_read_byte_data access adapter addr command data0 = - 1"
    by (simp add: smbus_read_byte_data_eq Let_def)
next
  assume "fst (access adapter addr SMBUS_READ command SMBUS_WORD_DATA (Some data0)) = 0"
  then have r: "smbus_read_word_data e access adapter addr command data0 =
      ucast (data_word e (snd (access adapter addr SMBUS_READ command SMBUS_WORD_DATA
                                 (Some data0))))"
    by (simp add: smbus_read_word_data_eq Let_def)
  show "0 \<le> sint (smbus_read_word_data e access adapter addr command data0)"
    and "sint (smbus_read_word_data e access adapter addr command data0) \<le> 65535"
    and "smbus_read_word_data e access adapter addr command data0 \<noteq> - 1"
    unfolding r using u16_result_range by blast+
next
  assume "fst (access adapter addr SMBUS_READ command SMBUS_WORD_DATA (Some data0)) \<noteq> 0"
  then show "smbus_read_word_data e access adapter addr command data0 = - 1"
    by (simp add: smbus_read_word_data_eq Let_def)
next
  assume "fst (access adapter addr SMBUS_WRITE command SMBUS_PROC_CALL
                (Some (set_data_word e value data0))) = 0"
  then have r: "smbus_process_call e access adapter addr command value data0 =
      ucast (data_word e (snd (access adapter addr SMBUS_WRITE command SMBUS_PROC_CALL
                                 (Some (set_data_word e value data0)))))"
    by (simp add: smbus_process_call_eq Let_def)
  show "0 \<le> sint (smbus_process_call e access adapter addr command value data0)"
    and "sint (smbus_process_call e access adapter addr command value data0) \<le> 65535"
    and "smbus_process_call e access adapter addr command value data0 \<noteq> - 1"
    unfolding r using u16_result_range by blast+
next
  assume "fst (access adapter addr SMBUS_WRITE command SMBUS_PROC_CALL
                (Some (set_data_word e value data0))) \<noteq> 0"
  then show "smbus_process_call e access adapter addr command value data0 = - 1"
    by (simp add: smbus_process_call_eq Let_def)
next
  assume "fst (access adapter addr SMBUS_READ command SMBUS_BLOCK_DATA (Some data0)) = 0"
  then have r: "fst (smbus_read_block_data access adapter addr command values data0) =
      ucast (snd (access adapter addr SMBUS_READ command SMBUS_BLOCK_DATA (Some data0)) 0)"
    by (simp add: smbus_read_block_data_eq Let_def)
  show "0 \<le> sint (fst (smbus_read_block_data access adapter addr command values data0))"
    and "sint (fst (smbus_read_block_data access adapter addr command values data0)) \<le> 255"
    and "fst (smbus_read_block_data access adapter addr command values data0) \<noteq> - 1"
    unfolding r using u8_result_range by blast+
next
  assume "fst (access adapter addr SMBUS_READ command SMBUS_BLOCK_DATA (Some data0)) \<noteq> 0"
  then show "fst (smbus_read_block_data access adapter addr command values data0) = - 1"
    by (simp add: smbus_read_block_data_eq Let_def)
qed

text \<open>
  The theorem on a bus that answers \<open>0xFF\<close> in every byte, the largest results there
  are, and on buses that fail with status \<open>-5\<close> and with status 7.
\<close>

theorem read_results_separate_failure_witness:
  "sint (smbus_read_byte (fixed_reply 0 (\<lambda>i. 0xFF)) 1 0x48 (\<lambda>i. 0)) \<le> 255
   \<and> smbus_read_byte (fixed_reply 0 (\<lambda>i. 0xFF)) 1 0x48 (\<lambda>i. 0) \<noteq> - 1
   \<and> sint (smbus_read_word_data Little_endian (fixed_reply 0 (\<lambda>i. 0xFF)) 1 0x48 3 (\<lambda>i. 0))
       \<le> 65535
   \<and> smbus_read_word_data Little_endian (fixed_reply 0 (\<lambda>i. 0xFF)) 1 0x48 3 (\<lambda>i. 0) \<noteq> - 1
   \<and> smbus_read_byte (fixed_reply (- 5) (\<lambda>i. 0xFF)) 1 0x48 (\<lambda>i. 0) = - 1
   \<and> smbus_read_byte (fixed_reply 7 (\<lambda>i. 0xFF)) 1 0x48 (\<lambda>i. 0) = - 1
   \<and> smbus_process_call Little_endian (fixed_reply 7 (\<lambda>i. 0xFF)) 1 0x48 3 9 (\<lambda>i. 0) = - 1
   \<and> fst (smbus_read_block_data (fixed_reply 7 (\<lambda>i. 0xFF)) 1 0x48 3 (\<lambda>i. 0) (\<lambda>i. 0)) = - 1"
proof -
  have ok: "(fst (fixed_reply 0 (\<lambda>i. 0xFF) a b c d e f) = 0) = True"
    and bad5: "(fst (fixed_reply (- 5) (\<lambda>i. 0xFF) a b c d e f) = 0) = False"
    and bad7: "(fst (fixed_reply 7 (\<lambda>i. 0xFF) a b c d e f) = 0) = False" for a b c d e f
    by (simp_all add: fixed_reply_def)
  note good = read_results_separate_failure
    [of "fixed_reply 0 (\<lambda>i. 0xFF)" 1 "0x48" "\<lambda>i. 0" 3 Little_endian 9 "\<lambda>i. 0",
     unfolded ok]
  note fail5 = read_results_separate_failure
    [of "fixed_reply (- 5) (\<lambda>i. 0xFF)" 1 "0x48" "\<lambda>i. 0" 3 Little_endian 9 "\<lambda>i. 0",
     unfolded bad5]
  note fail7 = read_results_separate_failure
    [of "fixed_reply 7 (\<lambda>i. 0xFF)" 1 "0x48" "\<lambda>i. 0" 3 Little_endian 9 "\<lambda>i. 0",
     unfolded bad7]
  from good have
    "sint (smbus_read_byte (fixed_reply 0 (\<lambda>i. 0xFF)) 1 0x48 (\<lambda>i. 0)) \<le> 255"
    "smbus_read_byte (fixed_reply 0 (\<lambda>i. 0xFF)) 1 0x48 (\<lambda>i. 0) \<noteq> - 1"
    "sint (smbus_read_word_data Little_endian (fixed_reply 0 (\<lambda>i. 0xFF)) 1 0x48 3 (\<lambda>i. 0))
       \<le> 65535"
    "smbus_read_word_data Little_endian (fixed_reply 0 (\<lambda>i. 0xFF)) 1 0x48 3 (\<lambda>i. 0) \<noteq> - 1"
    by simp_all
  moreover from fail5 have
    "smbus_read_byte (fixed_reply (- 5) (\<lambda>i. 0xFF)) 1 0x48 (\<lambda>i. 0) = - 1"
    by simp
  moreover from fail7 have
    "smbus_read_byte (fixed_reply 7 (\<lambda>i. 0xFF)) 1 0x48 (\<lambda>i. 0) = - 1"
    "smbus_process_call Little_endian (fixed_reply 7 (\<lambda>i. 0xFF)) 1 0x48 3 9 (\<lambda>i. 0) = - 1"
    "fst (smbus_read_block_data (fixed_reply 7 (\<lambda>i. 0xFF)) 1 0x48 3 (\<lambda>i. 0) (\<lambda>i. 0)) = - 1"
    by simp_all
  ultimately show ?thesis
    by simp
qed

section \<open>Quick transactions\<close>

text \<open>
  Claim C9. For every adapter, address and value, \<open>smbus_write_quick\<close> passes its value
  as the read/write marker of \<open>smbus_access\<close>, with command byte 0, the quick type and a
  null data pointer: value 0 is a write-quick and value 1 a read-quick.
\<close>

theorem write_quick_value_is_direction:
  "smbus_write_quick access adapter addr value =
     fst (access adapter addr value 0 SMBUS_QUICK None)
   \<and> smbus_write_quick access adapter addr 0 =
     fst (access adapter addr SMBUS_WRITE 0 SMBUS_QUICK None)
   \<and> smbus_write_quick access adapter addr 1 =
     fst (access adapter addr SMBUS_READ 0 SMBUS_QUICK None)"
  by (simp add: smbus_write_quick_def SMBUS_READ_def SMBUS_WRITE_def)

section \<open>Capacity of the client list\<close>

text \<open>
  Claim C7. On an adapter whose \<open>client_count\<close> does not exceed the capacity it never
  does after any history of attach and detach calls, and an attach on a full adapter
  fails with \<open>AdapterFull\<close>, invokes no hook and leaves the adapter, its client list
  and its \<open>client_count\<close> as they were.
\<close>

theorem client_count_never_exceeds_capacity:
  "(client_count a \<le> client_max \<longrightarrow>
      client_count (apply_ops client_max ops a) \<le> client_max)
   \<and> (client_max \<le> client_count a \<longrightarrow>
      smbus_attach_client client_max client a = (Some AdapterFull, a, []))"
  by (simp add: apply_ops_count smbus_attach_client_def)

text \<open>
  The theorem with capacity 2, on the adapter without clients: three attaches leave the
  count at 2 at most, and the third, on the adapter that the first two filled, fails
  with \<open>AdapterFull\<close> and changes nothing.
\<close>

theorem client_count_never_exceeds_capacity_witness:
  "client_count (example_adapter 100) \<le> 2
   \<and> client_count (apply_ops 2 [Attach (example_client 0x48), Attach (example_client 0x49),
                                 Attach (example_client 0x4A)] (example_adapter 100)) \<le> 2
   \<and> 2 \<le> client_count (apply_ops 2 [Attach (example_client 0x48),
                                     Attach (example_client 0x49)] (example_adapter 100))
   \<and> smbus_attach_client 2 (example_client 0x4A)
        (apply_ops 2 [Attach (example_client 0x48), Attach (example_client 0x49)]
           (example_adapter 100)) =
      (Some AdapterFull,
       apply_ops 2 [Attach (example_client 0x48), Attach (example_client 0x49)]
         (example_adapter 100),
       [])"
proof -
  let ?full = "apply_ops 2 [Attach (example_client 0x48), Attach (example_client 0x49)]
                 (example_adapter 100)"
  have empty: "client_count (example_adapter 100) \<le> 2"
    by (simp add: example_adapter_def)
  have full: "2 \<le> client_count ?full"
    by (simp add: smbus_attach_client_def example_adapter_def example_client_def)
  from client_count_never_exceeds_capacity
    [of "example_adapter 100" 2
        "[Attach (example_client 0x48), Attach (example_client 0x49),
          Attach (example_client 0x4A)]"] empty
  have "client_count (apply_ops 2 [Attach (example_client 0x48), Attach (example_client 0x49),
                                 Attach (example_client 0x4A)] (example_adapter 100)) \<le> 2"
    by blast
  moreover from client_count_never_exceeds_capacity [of ?full 2 _ "example_client 0x4A"] full
  have "smbus_attach_client 2 (example_client 0x4A) ?full = (Some AdapterFull, ?full, [])"
    by blast
  ultimately show ?thesis
    using empty full by blast
qed

section \<open>Where the access routine lives\<close>

text \<open>
  Claim C8 says that the native \<open>smbus_access\<close> entry is a component of the algorithm,
  shared by every adapter bound to it, and not a field of the adapter. In the header it
  is the last field of \<open>struct smbus_adapter\<close>, and \<open>struct smbus_algorithm\<close> has no
  such field: two adapters bound to the same algorithm can carry different access
  routines.
\<close>

theorem access_routine_differs_between_adapters_counterexample:
  "algo (example_adapter 100) = algo (example_adapter 200)
   \<and> smbus_access (example_adapter 100) \<noteq> smbus_access (example_adapter 200)"
  by (simp add: example_adapter_def)

text \<open>
  Claim C8, amended. The native \<open>smbus_access\<close> entry is a field of the adapter: it is
  set on one adapter without touching the algorithm the adapter is bound to, and
  adapters that are bound to the same algorithm each carry their own.
\<close>

theorem access_routine_is_adapter_field:
  "smbus_access (a\<lparr>smbus_access := f\<rparr>) = f
   \<and> algo (a\<lparr>smbus_access := f\<rparr>) = algo a
   \<and> smbus_access (example_adapter f) = f
   \<and> algo (example_adapter f) = algo (example_adapter g)"
  by (simp add: example_adapter_def)

end
